theory Spec2Isabelle
  imports Complex_Main
begin

section \<open>JavaScript values used by the timeline widget\<close>

text \<open>
  A JavaScript number is modelled as \<open>jsnum\<close>: the not-a-number value, the two
  infinities, or a finite number. Finite numbers are mathematical reals, so the rounding
  and the overflow of IEEE doubles and the sign of zero are not part of the model; every
  other case of the arithmetic below follows the language: \<open>NaN\<close> is contagious and
  compares false with everything, \<open>x / 0\<close> is an infinity (or \<open>NaN\<close> for \<open>0 / 0\<close>).
\<close>

datatype jsnum = NaN | NInf | PInf | Num real

text \<open>
  A property of the options object: absent (\<open>undefined\<close>), \<open>null\<close>, or present
  with a value.
\<close>

datatype 'a jsopt = Undefined | Null | Val 'a

fun num_neg :: "jsnum \<Rightarrow> jsnum" where
  "num_neg NaN = NaN"
| "num_neg NInf = PInf"
| "num_neg PInf = NInf"
| "num_neg (Num x) = Num (- x)"

fun num_add :: "jsnum \<Rightarrow> jsnum \<Rightarrow> jsnum" where
  "num_add (Num x) (Num y) = Num (x + y)"
| "num_add NaN _ = NaN"
| "num_add _ NaN = NaN"
| "num_add PInf NInf = NaN"
| "num_add NInf PInf = NaN"
| "num_add PInf _ = PInf"
| "num_add NInf _ = NInf"
| "num_add _ PInf = PInf"
| "num_add _ NInf = NInf"

definition num_sub :: "jsnum \<Rightarrow> jsnum \<Rightarrow> jsnum" where
  "num_sub a b = num_add a (num_neg b)"

text \<open>The sign of a number that is not \<open>NaN\<close>, as \<open>-1\<close>, \<open>0\<close> or \<open>1\<close>.\<close>

fun num_sign :: "jsnum \<Rightarrow> int" where
  "num_sign NaN = 0"
| "num_sign NInf = - 1"
| "num_sign PInf = 1"
| "num_sign (Num x) = (if x < 0 then - 1 else if x = 0 then 0 else 1)"

definition inf_of_sign :: "int \<Rightarrow> jsnum" where
  "inf_of_sign s = (if s = 0 then NaN else if 0 < s then PInf else NInf)"

fun num_mul :: "jsnum \<Rightarrow> jsnum \<Rightarrow> jsnum" where
  "num_mul (Num x) (Num y) = Num (x * y)"
| "num_mul NaN _ = NaN"
| "num_mul _ NaN = NaN"
| "num_mul a b = inf_of_sign (num_sign a * num_sign b)"

fun num_div :: "jsnum \<Rightarrow> jsnum \<Rightarrow> jsnum" where
  "num_div (Num x) (Num y) = (if y = 0 then inf_of_sign (num_sign (Num x)) else Num (x / y))"
| "num_div NaN _ = NaN"
| "num_div _ NaN = NaN"
| "num_div (Num x) _ = Num 0"
| "num_div a (Num y) = inf_of_sign (num_sign a * (if y < 0 then - 1 else 1))"
| "num_div _ _ = NaN"

text \<open>The comparison \<open>a < b\<close>; \<open>a > b\<close> is \<open>num_lt b a\<close>.\<close>

fun num_lt :: "jsnum \<Rightarrow> jsnum \<Rightarrow> bool" where
  "num_lt (Num x) (Num y) = (x < y)"
| "num_lt NaN _ = False"
| "num_lt _ NaN = False"
| "num_lt NInf NInf = False"
| "num_lt NInf _ = True"
| "num_lt _ NInf = False"
| "num_lt PInf _ = False"
| "num_lt _ PInf = True"

fun num_le :: "jsnum \<Rightarrow> jsnum \<Rightarrow> bool" where
  "num_le (Num x) (Num y) = (x \<le> y)"
| "num_le NaN _ = False"
| "num_le _ NaN = False"
| "num_le NInf _ = True"
| "num_le _ PInf = True"
| "num_le _ _ = False"

abbreviation num_gt :: "jsnum \<Rightarrow> jsnum \<Rightarrow> bool" where
  "num_gt a b \<equiv> num_lt b a"

text \<open>\<open>Math.abs\<close>.\<close>

fun num_abs :: "jsnum \<Rightarrow> jsnum" where
  "num_abs NaN = NaN"
| "num_abs NInf = PInf"
| "num_abs PInf = PInf"
| "num_abs (Num x) = Num \<bar>x\<bar>"

text \<open>
  \<open>d3.round(x)\<close> with no second argument is \<open>Math.round(x)\<close>: the nearest integer,
  a tie going up.
\<close>

fun d3_round :: "jsnum \<Rightarrow> jsnum" where
  "d3_round (Num x) = Num (of_int \<lfloor>x + 1 / 2\<rfloor>)"
| "d3_round a = a"

text \<open>A number is falsy when it is zero or \<open>NaN\<close>.\<close>

fun truthy :: "jsnum \<Rightarrow> bool" where
  "truthy NaN = False"
| "truthy (Num x) = (x \<noteq> 0)"
| "truthy _ = True"

text \<open>\<open>ToNumber\<close> of an option value: \<open>undefined\<close> is \<open>NaN\<close>, \<open>null\<close> is \<open>0\<close>.\<close>

fun toNumber :: "real jsopt \<Rightarrow> jsnum" where
  "toNumber Undefined = NaN"
| "toNumber Null = Num 0"
| "toNumber (Val x) = Num x"

section \<open>getNearestInArray\<close>

text \<open>
  \<^verbatim>\<open>
  getNearestInArray = function(arr, goal) {
     var closest = null;
     $.each(arr, function(i, e) {
        if (closest === null || Math.abs(e - goal) < Math.abs(closest - goal)) {
           closest = e;
        }
     });
     return closest;
  };
  \<close>
  \<open>closest\<close> is \<open>None\<close> while it is \<open>null\<close>. The callback of \<open>$.each\<close> returns
  nothing, so the iteration visits every element, in order.
\<close>

definition nearest_step :: "jsnum \<Rightarrow> jsnum option \<Rightarrow> jsnum \<Rightarrow> jsnum option" where
  "nearest_step goal closest e =
     (case closest of
        None \<Rightarrow> Some e
      | Some c \<Rightarrow>
          if num_lt (num_abs (num_sub e goal)) (num_abs (num_sub c goal)) then Some e
          else Some c)"

definition getNearestInArray :: "jsnum list \<Rightarrow> jsnum \<Rightarrow> jsnum option" where
  "getNearestInArray arr goal = foldl (nearest_step goal) None arr"

section \<open>Dates\<close>

text \<open>
  A \<open>Date\<close> is represented by its time value, the milliseconds since the epoch:
  an integer-valued number, or \<open>NaN\<close> for an invalid date. \<open>new Date(t)\<close> of a
  number clips it (ECMAScript \<open>TimeClip\<close>): a value that is not finite or lies beyond
  8.64e15 in magnitude gives the invalid date, any other is truncated towards zero.
\<close>

definition new_Date :: "jsnum \<Rightarrow> jsnum" where
  "new_Date t =
     (case t of
        Num x \<Rightarrow>
          if 8640000000000000 < \<bar>x\<bar> then NaN
          else Num (of_int (if x < 0 then \<lceil>x\<rceil> else \<lfloor>x\<rfloor>))
      | _ \<Rightarrow> NaN)"

text \<open>
  The date strings of a time bar (\<open>startDate\<close>, \<open>endDate\<close>, \<open>dateTimes\<close>) are
  held as the time values they parse to; \<open>new Date(d.startDate)\<close> is then
  \<open>date_of (startDate d)\<close>. Strings that do not parse are outside this type.
\<close>

definition date_of :: "int \<Rightarrow> jsnum" where
  "date_of t = Num (of_int t)"

section \<open>The data model\<close>

record timebar =
  name :: string
  label :: string
  startDate :: int
  endDate :: int
  dateTimes :: "int list"

record margins =
  margin_top :: real
  margin_right :: real
  margin_bottom :: real
  margin_left :: real

text \<open>The options object given to the constructor; each property may be absent or null.\<close>

record options =
  opt_selectedDate :: "int jsopt"
  opt_chartMargins :: "margins jsopt"
  opt_barHeight :: "real jsopt"
  opt_barMargin :: "real jsopt"
  opt_timebars :: "timebar list jsopt"

section \<open>The d3 scales\<close>

text \<open>
  The widget uses two-point linear scales of the d3 library (\<open>d3.scale.linear\<close>, and
  \<open>d3.time.scale\<close>, which is a linear scale on time values whose \<open>domain()\<close> and
  \<open>invert\<close> return \<open>Date\<close> objects). The library is not part of the repository; the
  definitions follow its source: a scale maps \<open>x\<close> to \<open>i (u x)\<close> where \<open>u\<close>
  un-interpolates over the domain and \<open>i\<close> interpolates over the range, and the
  inverse exchanges domain and range.
\<close>

record scale =
  sdomain :: "jsnum \<times> jsnum"
  srange :: "jsnum \<times> jsnum"

definition d3_uninterpolateNumber :: "jsnum \<Rightarrow> jsnum \<Rightarrow> jsnum \<Rightarrow> jsnum" where
  \<comment> \<open>\<open>b = (b -= a) || 1 / b; return (x - a) / b\<close>\<close>
  "d3_uninterpolateNumber a b x =
     (let d = num_sub b a;
          b' = (if truthy d then d else num_div (Num 1) d)
      in num_div (num_sub x a) b')"

definition d3_interpolateNumber :: "jsnum \<Rightarrow> jsnum \<Rightarrow> jsnum \<Rightarrow> jsnum" where
  \<comment> \<open>\<open>b -= a; return a + b * t\<close>\<close>
  "d3_interpolateNumber a b t = num_add a (num_mul (num_sub b a) t)"

definition scale_apply :: "scale \<Rightarrow> jsnum \<Rightarrow> jsnum" where
  "scale_apply sc x =
     d3_interpolateNumber (fst (srange sc)) (snd (srange sc))
       (d3_uninterpolateNumber (fst (sdomain sc)) (snd (sdomain sc)) x)"


text \<open>\<open>xScale.domain()\<close> and \<open>xScale.invert(x)\<close> of the time scale build dates.\<close>

definition time_domain :: "scale \<Rightarrow> jsnum \<times> jsnum" where
  "time_domain sc = (new_Date (fst (sdomain sc)), new_Date (snd (sdomain sc)))"


text \<open>
  \<open>d3.min(array, f)\<close> and \<open>d3.max(array, f)\<close> over the dates of the bars:
  \<open>undefined\<close> (here \<open>None\<close>) for the empty array, else the first value, replaced
  by each later one that compares smaller (greater).
\<close>

fun d3_min :: "jsnum list \<Rightarrow> jsnum option" where
  "d3_min [] = None"
| "d3_min (x # xs) = Some (foldl (\<lambda>a b. if num_gt a b then b else a) x xs)"

fun d3_max :: "jsnum list \<Rightarrow> jsnum option" where
  "d3_max [] = None"
| "d3_max (x # xs) = Some (foldl (\<lambda>a b. if num_gt b a then b else a) x xs)"

section \<open>The widget state\<close>

text \<open>
  The drawn elements. An attribute that has not been set yet is \<open>None\<close>. The stroke
  colours and the CSS classes are left out: the colour of a lane depends on the order in
  which the colour scale first meets the lane indices, which the animated transitions
  decide. An attribute set through a transition holds the value the transition ends at.
\<close>

type_synonym attr = "jsnum option"

record sepLine =
  sep_y1 :: jsnum
  sep_y2 :: jsnum
  sep_x2 :: attr

record timeRange =
  bar_y :: jsnum
  bar_height :: jsnum
  bar_x :: attr
  bar_width :: attr

record detailLine =
  det_datum :: int
  det_y1 :: jsnum
  det_y2 :: jsnum
  det_x1 :: attr
  det_x2 :: attr

record laneText =
  lane_text :: string
  lane_y :: jsnum

record view =
  divHeight :: attr
  mainWidth :: attr
  mainHeight :: attr
  chartAttrWidth :: attr
  chartAttrHeight :: attr
  clip :: "(jsnum \<times> jsnum \<times> jsnum \<times> jsnum) option"
  axisY :: attr
  sepLines :: "sepLine list"
  bars :: "timeRange list"
  dateDetails :: "detailLine list list"
  nowLine :: "(jsnum \<times> jsnum \<times> jsnum \<times> jsnum) option"
  selectedDateLine_x :: attr
  selectedDateLine_box :: "(jsnum \<times> jsnum \<times> jsnum) option"
  labels :: "laneText list"

datatype tickUnit = Years | Months | Weeks | Days | Hours

text \<open>
  The tick settings of the x axis: the arguments of \<open>xAxis.ticks\<close> (interval and
  step; the step is \<open>None\<close> when it is \<open>null\<close>) and of \<open>xAxis.tickFormat\<close>;
  \<open>None\<close> while the library's defaults stand.
\<close>

record axis =
  ticks :: "(tickUnit \<times> jsnum option) option"
  tickFormat :: "string option"

text \<open>
  The fields of the \<open>TimeLine\<close> object. \<open>redraws\<close> is not a field of the source:
  it counts the calls of \<open>redraw\<close>, so that "no redraw is performed" can be stated.
\<close>

record timeline =
  visible :: bool
  timebars :: "timebar list"
  barHeight :: "real jsopt"
  barMargin :: "real jsopt"
  now :: jsnum
  selectedDate :: jsnum
  margin :: margins
  laneHeight :: jsnum
  height :: jsnum
  chartHeight :: jsnum
  chartWidth :: jsnum
  width :: jsnum
  xScale :: scale
  yScale :: scale
  draggedDate :: jsnum
  xAxis :: axis
  dom :: view
  redraws :: nat

section \<open>Geometry\<close>

text \<open>
  \<^verbatim>\<open>
  opec.TimeLine.prototype.reHeight = function() {
     this.height = this.laneHeight*(this.timebars.length);
     if (this.height === 0){ this.height = 25; }
     this.chartHeight = this.height + this.margin.top + this.margin.bottom + 20;
  };
  opec.TimeLine.prototype.reWidth = function() {
     this.chartWidth = $('div#' + this.id).width();
     this.width = this.chartWidth - this.margin.right - this.margin.left;
  };
  \<close>
  The width of the container element is read from the page at each call: it is the
  argument \<open>cw\<close> of \<open>reWidth\<close>.
\<close>

definition reHeight :: "timeline \<Rightarrow> timeline" where
  "reHeight s =
     (let h = num_mul (laneHeight s) (Num (of_nat (length (timebars s))));
          h' = (if h = Num 0 then Num 25 else h)
      in s\<lparr>height := h',
           chartHeight :=
             num_add (num_add (num_add h' (Num (margin_top (margin s))))
               (Num (margin_bottom (margin s)))) (Num 20)\<rparr>)"

definition reWidth :: "real \<Rightarrow> timeline \<Rightarrow> timeline" where
  "reWidth cw s =
     s\<lparr>chartWidth := Num cw,
       width := num_sub (num_sub (Num cw) (Num (margin_right (margin s))))
                  (Num (margin_left (margin s)))\<rparr>"

section \<open>Redraw\<close>

text \<open>
  A d3 data join by index, as \<open>selection.data(ds)\<close> followed by
  \<open>enter().insert(...)\<close> and \<open>exit().remove()\<close> performs it: the elements that
  have a datum stay as they are, an element is made for each datum beyond them, and the
  elements beyond the data are removed. The entered elements join the update selection.
\<close>

definition d3_join :: "'e list \<Rightarrow> 'd list \<Rightarrow> (nat \<Rightarrow> 'd \<Rightarrow> 'e) \<Rightarrow> 'e list" where
  "d3_join els ds enter =
     take (length ds) els @ map (\<lambda>i. enter i (ds ! i)) [length els ..< length ds]"

text \<open>
  \<^verbatim>\<open>
  this.xScale.range([0, this.width]);
  this.yScale.domain([0, this.timebars.length]).range([0, this.height]);
  \<close>
\<close>

definition redraw_scales :: "timeline \<Rightarrow> timeline" where
  "redraw_scales s =
     s\<lparr>xScale := (xScale s)\<lparr>srange := (Num 0, width s)\<rparr>,
       yScale := \<lparr>sdomain = (Num 0, Num (of_nat (length (timebars s)))),
                  srange = (Num 0, height s)\<rparr>\<rparr>"

text \<open>
  \<^verbatim>\<open>
  $('#' + this.id).height(this.chartHeight);
  this.main.attr('width', this.width).attr('height', this.height);
  this.chart.attr('width', this.chartWidth).attr('height', this.chartHeight)
     .style('clip', 'rect( 0px, '+ (this.width + this.margin.left) +'px, '
            + this.chartHeight + 'px, ' + this.margin.left + 'px)');
  this.main.selectAll('.axis')
     .attr('transform', 'translate(0,' + d3.round(this.height + 0.5) + ')').call(this.xAxis);
  \<close>
  The clip rectangle and the translation are held as their numbers.
\<close>

definition redraw_frame :: "timeline \<Rightarrow> timeline" where
  "redraw_frame s =
     s\<lparr>dom := (dom s)
       \<lparr>divHeight := Some (chartHeight s),
        mainWidth := Some (width s),
        mainHeight := Some (height s),
        chartAttrWidth := Some (chartWidth s),
        chartAttrHeight := Some (chartHeight s),
        clip := Some (Num 0, num_add (width s) (Num (margin_left (margin s))),
                      chartHeight s, Num (margin_left (margin s))),
        axisY := Some (d3_round (num_add (height s) (Num (1 / 2))))\<rparr>\<rparr>"

text \<open>
  \<^verbatim>\<open>
  var scaling = (this.xScale.domain()[1] - this.xScale.domain()[0]) / (this.width * 4e7);
  if (scaling > 12) {
     this.xAxis.ticks(d3.time.years, d3.round(scaling/12)).tickFormat(d3.time.format('%Y'));
  }
  else if (scaling <= 12 && scaling > 1) {
     this.xAxis.ticks(d3.time.months, getNearestInArray([1, 2, 3, 4, 6, 12], scaling))
        .tickFormat(d3.time.format('%b %y'));
  }
  else if (scaling <= 1 && scaling > 1/7) {
     this.xAxis.ticks(d3.time.weeks, d3.round(scaling*4.3)).tickFormat(d3.time.format('%d/%m/%y'));
  }
  else if (scaling <= 1/7 && scaling > 1/365) {
     this.xAxis.ticks(d3.time.days, d3.round(scaling*30)).tickFormat(d3.time.format('%d/%m/%y'));
  }
  else if (scaling <= 1/365) {
     this.xAxis.ticks(d3.time.hours, d3.round(scaling*730)).tickFormat(d3.time.format('%I %p'));
  }
  \<close>
\<close>

definition scaling :: "timeline \<Rightarrow> jsnum" where
  "scaling s =
     num_div (num_sub (snd (time_domain (xScale s))) (fst (time_domain (xScale s))))
       (num_mul (width s) (Num 40000000))"

definition tickPolicy :: "jsnum \<Rightarrow> axis \<Rightarrow> axis" where
  "tickPolicy sc ax =
     (if num_gt sc (Num 12) then
        ax\<lparr>ticks := Some (Years, Some (d3_round (num_div sc (Num 12)))),
           tickFormat := Some ''%Y''\<rparr>
      else if num_le sc (Num 12) \<and> num_gt sc (Num 1) then
        ax\<lparr>ticks := Some (Months, getNearestInArray (map Num [1, 2, 3, 4, 6, 12]) sc),
           tickFormat := Some ''%b %y''\<rparr>
      else if num_le sc (Num 1) \<and> num_gt sc (Num (1 / 7)) then
        ax\<lparr>ticks := Some (Weeks, Some (d3_round (num_mul sc (Num (43 / 10))))),
           tickFormat := Some ''%d/%m/%y''\<rparr>
      else if num_le sc (Num (1 / 7)) \<and> num_gt sc (Num (1 / 365)) then
        ax\<lparr>ticks := Some (Days, Some (d3_round (num_mul sc (Num 30)))),
           tickFormat := Some ''%d/%m/%y''\<rparr>
      else if num_le sc (Num (1 / 365)) then
        ax\<lparr>ticks := Some (Hours, Some (d3_round (num_mul sc (Num 730)))),
           tickFormat := Some ''%I %p''\<rparr>
      else ax)"

definition redraw_ticks :: "timeline \<Rightarrow> timeline" where
  "redraw_ticks s = s\<lparr>xAxis := tickPolicy (scaling s) (xAxis s)\<rparr>"

text \<open>
  \<^verbatim>\<open>
  this.sepLines = this.separatorArea.selectAll('line').data(this.timebars);
  this.sepLines.enter().insert('svg:line')
     .attr('x1', 0)
     .attr('y1', function(d, i) { return d3.round(self.yScale(i) + 0.5); })
     .attr('y2', function(d, i) { return d3.round(self.yScale(i) + 0.5); })
     .attr('class', 'separatorLine');
  var ex = this.sepLines.exit();
  ex.remove();
  this.sepLines.attr('x2', this.width);
  \<close>
\<close>

definition lane_top :: "timeline \<Rightarrow> nat \<Rightarrow> jsnum" where
  \<comment> \<open>\<open>self.yScale(i)\<close>\<close>
  "lane_top s i = scale_apply (yScale s) (Num (of_nat i))"

definition redraw_sepLines :: "timeline \<Rightarrow> timeline" where
  "redraw_sepLines s =
     s\<lparr>dom := (dom s)
       \<lparr>sepLines :=
          map (\<lambda>e. e\<lparr>sep_x2 := Some (width s)\<rparr>)
            (d3_join (sepLines (dom s)) (timebars s)
               (\<lambda>i d. \<lparr>sep_y1 = d3_round (num_add (lane_top s i) (Num (1 / 2))),
                       sep_y2 = d3_round (num_add (lane_top s i) (Num (1 / 2))),
                       sep_x2 = None\<rparr>))\<rparr>\<rparr>"

text \<open>
  \<^verbatim>\<open>
  this.bars = this.barArea.selectAll('rect').data(this.timebars);
  this.bars
    .enter().insert('svg:rect')
     .attr('y', function(d, i) { return d3.round(self.yScale(i) + self.barMargin + 0.5); })
    .transition().duration(500)
     .attr('height', d3.round(self.barHeight + 0.5))
     .attr('stroke', function(d, i) { return self.colours(i); })
     .attr('class', 'timeRange');
  ex = this.bars.exit();
  ex.remove();
  this.bars
     .attr('x', function(d) { var x = d3.round(self.xScale(new Date(d.startDate)) + 0.5); return x; })
     .attr('width', function(d) { return d3.round(self.xScale(new Date(d.endDate))
                                                  - self.xScale(new Date(d.startDate))); });
  \<close>
\<close>

definition redraw_bars :: "timeline \<Rightarrow> timeline" where
  "redraw_bars s =
     s\<lparr>dom := (dom s)
       \<lparr>bars :=
          map (\<lambda>(e, d).
                e\<lparr>bar_x := Some (d3_round (num_add (scale_apply (xScale s) (date_of (startDate d)))
                                              (Num (1 / 2)))),
                  bar_width := Some (d3_round (num_sub (scale_apply (xScale s) (date_of (endDate d)))
                                                 (scale_apply (xScale s) (date_of (startDate d)))))\<rparr>)
            (zip
              (d3_join (bars (dom s)) (timebars s)
                 (\<lambda>i d. \<lparr>bar_y = d3_round (num_add (num_add (lane_top s i) (toNumber (barMargin s)))
                                              (Num (1 / 2))),
                         bar_height = d3_round (num_add (toNumber (barHeight s)) (Num (1 / 2))),
                         bar_x = None, bar_width = None\<rparr>))
              (timebars s))\<rparr>\<rparr>"

text \<open>
  \<^verbatim>\<open>
  this.dateDetails = this.dateDetailArea.selectAll('g').data(this.timebars);
  this.dateDetails.enter().insert('svg:g')
     .each(function(d1, i1) {
        d3.select(this).selectAll('g').data(d1.dateTimes)  // <-- second level data-join
          .enter().append('svg:line')
           .attr('stroke', function() { return self.colours(i1); })
           .attr('y1', function() { return d3.round(self.yScale(i1) + self.barMargin + 1.5); })
           .attr('y2', function() { return d3.round(self.yScale(i1) + self.laneHeight
                                                    - self.barMargin + 0.5); })
           .attr('class', 'detailLine');
  });
  ex = this.dateDetails.exit();
  ex.remove();
  this.main.selectAll('.detailLine')
     .attr('x1', function(d) { return d3.round(self.xScale(new Date(d)) + 0.5); })
     .attr('x2', function(d) { return d3.round(self.xScale(new Date(d)) + 0.5); });
  \<close>
  A detail line keeps the datum it was made for.
\<close>

definition redraw_dateDetails :: "timeline \<Rightarrow> timeline" where
  "redraw_dateDetails s =
     s\<lparr>dom := (dom s)
       \<lparr>dateDetails :=
          map (map (\<lambda>l.
                 l\<lparr>det_x1 := Some (d3_round (num_add (scale_apply (xScale s) (date_of (det_datum l)))
                                                (Num (1 / 2)))),
                   det_x2 := Some (d3_round (num_add (scale_apply (xScale s) (date_of (det_datum l)))
                                                (Num (1 / 2))))\<rparr>))
            (d3_join (dateDetails (dom s)) (timebars s)
               (\<lambda>i1 d1.
                  map (\<lambda>t. \<lparr>det_datum = t,
                            det_y1 = d3_round (num_add (num_add (lane_top s i1) (toNumber (barMargin s)))
                                                 (Num (3 / 2))),
                            det_y2 = d3_round (num_add (num_sub (num_add (lane_top s i1) (laneHeight s))
                                                          (toNumber (barMargin s)))
                                                 (Num (1 / 2))),
                            det_x1 = None, det_x2 = None\<rparr>)
                    (dateTimes d1)))\<rparr>\<rparr>"

text \<open>
  \<^verbatim>\<open>
  this.nowLine
     .attr('x1', d3.round(self.xScale(self.now) + 0.5)).attr('y1', 0)
     .attr('x2', d3.round(self.xScale(self.now) + 0.5)).attr('y2', self.height);
  this.selectedDateLine
     .attr('x', function(d) { return d3.round(self.xScale(self.selectedDate) - 1.5); }).attr('y', 2)
     .attr('width', 4).attr('height', self.height - 2);
  \<close>
\<close>

definition redraw_markers :: "timeline \<Rightarrow> timeline" where
  "redraw_markers s =
     s\<lparr>dom := (dom s)
       \<lparr>nowLine :=
          Some (d3_round (num_add (scale_apply (xScale s) (now s)) (Num (1 / 2))), Num 0,
                d3_round (num_add (scale_apply (xScale s) (now s)) (Num (1 / 2))), height s),
        selectedDateLine_x :=
          Some (d3_round (num_sub (scale_apply (xScale s) (selectedDate s)) (Num (3 / 2)))),
        selectedDateLine_box := Some (Num 2, Num 4, num_sub (height s) (Num 2))\<rparr>\<rparr>"

text \<open>
  \<^verbatim>\<open>
  this.labels = this.labelArea.selectAll('text').data(this.timebars);
  this.labels.enter().insert('svg:text')
     .text(function(d) { return d.label; })
     .attr('x', 1.5)
     .attr('y', function(d, i) { return d3.round(self.yScale(i + 0.5)); })
     .attr('dy', '0.7ex')
     .attr('text-anchor', 'end').attr('class', 'laneText');
  ex = this.labels.exit();
  ex.remove();
  \<close>
\<close>

definition redraw_labels :: "timeline \<Rightarrow> timeline" where
  "redraw_labels s =
     s\<lparr>dom := (dom s)
       \<lparr>labels :=
          d3_join (labels (dom s)) (timebars s)
            (\<lambda>i d. \<lparr>lane_text = label d,
                    lane_y = d3_round (scale_apply (yScale s) (Num (of_nat i + 1 / 2)))\<rparr>)\<rparr>\<rparr>"

text \<open>The whole of \<open>opec.TimeLine.prototype.redraw\<close>, in the order of the source.\<close>

definition redraw :: "timeline \<Rightarrow> timeline" where
  "redraw s =
     (redraw_labels (redraw_markers (redraw_dateDetails (redraw_bars (redraw_sepLines
        (redraw_ticks (redraw_frame (redraw_scales s))))))))
     \<lparr>redraws := redraws s + 1\<rparr>"

section \<open>Construction\<close>

text \<open>
  \<^verbatim>\<open>
  opec.TimeLine = function(id, options) {
     var self = this;
     if (!$('div#' + id).length) {
        console.error('No DIV with ID, "' + id + '" exists. Cannot render TimeLine.');
        return;
     }
     this.id = id;
     this.visible = true;
     this.timebars = (options.timebars instanceof Array) ? options.timebars : [];
     this.barHeight = options.barHeight !== null ? options.barHeight : 20;
     this.barMargin = options.barMargin !== null ? options.barMargin : 4;
     this.now = new Date();
     this.selectedDate = options.selectedDate !== null ? new Date(options.selectedDate) : new Date();
     this.margin = options.chartMargins || { top : 0, right : 0, bottom : 0, left : 0 };
     this.laneHeight = this.barHeight + this.barMargin*2 + 1;
     ...
     this.reHeight();
     this.reWidth();
     var minDate = d3.min(this.timebars, function(d) { return new Date(d.startDate); });
     var maxDate = d3.max(this.timebars, function(d) { return new Date(d.endDate); });
     if (typeof minDate === 'undefined' || minDate === null ){
        minDate = new Date(this.selectedDate.getTime() - 15778450000);
     }
     if (typeof maxDate === 'undefined' || maxDate === null ){
        maxDate = new Date(this.selectedDate.getTime() + 15778450000);
     }
     this.xScale = d3.time.scale().domain([minDate, maxDate]).range([0, this.width]);
     this.yScale = d3.scale.linear().domain([0, this.timebars.length]).range([0, this.height]);
     ...
     this.draggedDate = this.selectedDate;
     ...
     self.redraw();
     $(window).resize(function() {
        if(self.visible){ self.reWidth(); self.redraw(); }
     });
  };
  \<close>
  Each option is read as the source reads it: the strict comparison \<open>!== null\<close> lets
  an absent property (\<open>undefined\<close>) through.
\<close>

definition init_timebars :: "timebar list jsopt \<Rightarrow> timebar list" where
  \<comment> \<open>\<open>(options.timebars instanceof Array) ? options.timebars : []\<close>\<close>
  "init_timebars o_tbs = (case o_tbs of Val tbs \<Rightarrow> tbs | _ \<Rightarrow> [])"

definition init_barHeight :: "real jsopt \<Rightarrow> real jsopt" where
  \<comment> \<open>\<open>options.barHeight !== null ? options.barHeight : 20\<close>\<close>
  "init_barHeight o_bh = (if o_bh \<noteq> Null then o_bh else Val 20)"

definition init_barMargin :: "real jsopt \<Rightarrow> real jsopt" where
  \<comment> \<open>\<open>options.barMargin !== null ? options.barMargin : 4\<close>\<close>
  "init_barMargin o_bm = (if o_bm \<noteq> Null then o_bm else Val 4)"

definition init_selectedDate :: "int \<Rightarrow> int jsopt \<Rightarrow> jsnum" where
  \<comment> \<open>\<open>options.selectedDate !== null ? new Date(options.selectedDate) : new Date()\<close>;
      \<open>new Date(undefined)\<close> is the invalid date\<close>
  "init_selectedDate clock o_sd =
     (if o_sd \<noteq> Null then (case o_sd of Val t \<Rightarrow> date_of t | _ \<Rightarrow> NaN)
      else date_of clock)"

definition init_margin :: "margins jsopt \<Rightarrow> margins" where
  \<comment> \<open>\<open>options.chartMargins || { top : 0, right : 0, bottom : 0, left : 0 }\<close>\<close>
  "init_margin o_m =
     (case o_m of
        Val m \<Rightarrow> m
      | _ \<Rightarrow> \<lparr>margin_top = 0, margin_right = 0, margin_bottom = 0, margin_left = 0\<rparr>)"

definition init_laneHeight :: "real jsopt \<Rightarrow> real jsopt \<Rightarrow> jsnum" where
  \<comment> \<open>\<open>this.barHeight + this.barMargin*2 + 1\<close>\<close>
  "init_laneHeight bh bm =
     num_add (num_add (toNumber bh) (num_mul (toNumber bm) (Num 2))) (Num 1)"

definition init_domain :: "timebar list \<Rightarrow> jsnum \<Rightarrow> jsnum \<times> jsnum" where
  "init_domain tbs sel =
     (let minDate = (case d3_min (map (\<lambda>d. date_of (startDate d)) tbs) of
                       None \<Rightarrow> new_Date (num_sub sel (Num 15778450000))
                     | Some m \<Rightarrow> m);
          maxDate = (case d3_max (map (\<lambda>d. date_of (endDate d)) tbs) of
                       None \<Rightarrow> new_Date (num_add sel (Num 15778450000))
                     | Some m \<Rightarrow> m)
      in (minDate, maxDate))"

definition empty_view :: view where
  "empty_view =
     \<lparr>divHeight = None, mainWidth = None, mainHeight = None,
      chartAttrWidth = None, chartAttrHeight = None, clip = None, axisY = None,
      sepLines = [], bars = [], dateDetails = [], nowLine = None,
      selectedDateLine_x = None, selectedDateLine_box = None, labels = []\<rparr>"

text \<open>
  The object after the assignments that read the options. The fields the constructor
  assigns further down (\<open>height\<close>, \<open>chartHeight\<close>, \<open>chartWidth\<close>, \<open>width\<close>, the
  scales, \<open>draggedDate\<close>) are \<open>undefined\<close> until then and are not read before; they
  start here as \<open>NaN\<close>.
\<close>

definition init_fields :: "int \<Rightarrow> options \<Rightarrow> timeline" where
  "init_fields clock opts =
     \<lparr>visible = True,
      timebars = init_timebars (opt_timebars opts),
      barHeight = init_barHeight (opt_barHeight opts),
      barMargin = init_barMargin (opt_barMargin opts),
      now = date_of clock,
      selectedDate = init_selectedDate clock (opt_selectedDate opts),
      margin = init_margin (opt_chartMargins opts),
      laneHeight = init_laneHeight (init_barHeight (opt_barHeight opts))
                     (init_barMargin (opt_barMargin opts)),
      height = NaN, chartHeight = NaN, chartWidth = NaN, width = NaN,
      xScale = \<lparr>sdomain = (NaN, NaN), srange = (NaN, NaN)\<rparr>,
      yScale = \<lparr>sdomain = (NaN, NaN), srange = (NaN, NaN)\<rparr>,
      draggedDate = NaN,
      xAxis = \<lparr>ticks = None, tickFormat = None\<rparr>,
      dom = empty_view,
      redraws = 0\<rparr>"

definition init_scales :: "timeline \<Rightarrow> timeline" where
  "init_scales s =
     s\<lparr>xScale := \<lparr>sdomain = init_domain (timebars s) (selectedDate s),
                  srange = (Num 0, width s)\<rparr>,
       yScale := \<lparr>sdomain = (Num 0, Num (of_nat (length (timebars s)))),
                  srange = (Num 0, height s)\<rparr>\<rparr>"

text \<open>
  The constructor, from the first assignment on, in a container of width \<open>cw\<close>;
  \<open>clock\<close> is the time \<open>new Date()\<close> reads.
\<close>

definition construct_body :: "real \<Rightarrow> int \<Rightarrow> options \<Rightarrow> timeline" where
  "construct_body cw clock opts =
     (let s1 = reWidth cw (reHeight (init_fields clock opts));
          s2 = init_scales s1;
          s3 = s2\<lparr>draggedDate := selectedDate s2\<rparr>
      in redraw s3)"

text \<open>
  The constructor. \<open>container\<close> is \<open>None\<close> when the page has no \<open>div\<close> of the
  given id: the constructor then logs an error and returns before any field is set, which
  is the result \<open>None\<close>; otherwise \<open>container\<close> is that element's width.
\<close>

definition construct :: "real option \<Rightarrow> int \<Rightarrow> options \<Rightarrow> timeline option" where
  "construct container clock opts =
     (case container of
        None \<Rightarrow> None
      | Some cw \<Rightarrow> Some (construct_body cw clock opts))"

section \<open>Resize, show and hide\<close>

text \<open>
  The handler the constructor registers for the resize of the window:
  \<^verbatim>\<open>if(self.visible){ self.reWidth(); self.redraw(); }\<close>
\<close>

definition resize :: "real \<Rightarrow> timeline \<Rightarrow> timeline" where
  "resize cw s = (if visible s then redraw (reWidth cw s) else s)"

text \<open>
  \<^verbatim>\<open>
  opec.TimeLine.prototype.hide = function() {
     this.chart.transition().duration(800).attr('height', 0);
     this.main.transition().duration(800).attr('height', 0);
     $('div#' + this.id).slideUp(1000);
     this.visible = false;
  };
  opec.TimeLine.prototype.show = function() {
     this.chart.transition().duration(1000).attr('height', this.chartHeight);
     this.main.transition().duration(1000).attr('height', this.height);
     $('div#' + this.id).slideDown(800);
     this.visible = true;
  };
  \<close>
\<close>

definition hide :: "timeline \<Rightarrow> timeline" where
  "hide s =
     s\<lparr>dom := (dom s)\<lparr>chartAttrHeight := Some (Num 0), mainHeight := Some (Num 0)\<rparr>,
       visible := False\<rparr>"

definition show_timeline :: "timeline \<Rightarrow> timeline" where
  "show_timeline s =
     s\<lparr>dom := (dom s)\<lparr>chartAttrHeight := Some (chartHeight s), mainHeight := Some (height s)\<rparr>,
       visible := True\<rparr>"

section \<open>Dragging the selected date\<close>




text \<open>
  The end of the drag commits the date; the calls that tell the date picker and the
  map are outside the widget.
\<close>

definition dragDateEnd :: "timeline \<Rightarrow> timeline" where
  "dragDateEnd s = s\<lparr>selectedDate := draggedDate s\<rparr>"

section \<open>Adding and removing time bars\<close>

text \<open>
  \<open>Array.prototype.splice(start, deleteCount)\<close> with no items to insert, for integer
  arguments: a negative start counts from the end, and both are clamped to the array.
\<close>

definition js_splice :: "int \<Rightarrow> int \<Rightarrow> 'a list \<Rightarrow> 'a list" where
  "js_splice start deleteCount xs =
     (let len = int (length xs);
          actualStart = (if start < 0 then max (len + start) 0 else min start len);
          actualDeleteCount = min (max deleteCount 0) (len - actualStart)
      in take (nat actualStart) xs @ drop (nat (actualStart + actualDeleteCount)) xs)"

text \<open>
  \<^verbatim>\<open>
  opec.TimeLine.prototype.addTimeBarJSON = function(timeBar) {
     this.timebars.push(timeBar);
     this.reHeight();
     this.redraw();
  };
  opec.TimeLine.prototype.addTimeBar = function(name, label, startDate, endDate, dateTimes) {
     var newTimebar = {};
     newTimebar.name = name;
     newTimebar.label = label;
     newTimebar.startDate = startDate;
     newTimebar.endDate = endDate;
     newTimebar.dateTimes = dateTimes;
     this.timebars.push(newTimebar);
     this.reHeight();
     this.redraw();
  };
  \<close>
\<close>

definition addTimeBarJSON :: "timebar \<Rightarrow> timeline \<Rightarrow> timeline" where
  "addTimeBarJSON timeBar s = redraw (reHeight (s\<lparr>timebars := timebars s @ [timeBar]\<rparr>))"

definition addTimeBar :: "string \<Rightarrow> string \<Rightarrow> int \<Rightarrow> int \<Rightarrow> int list \<Rightarrow> timeline \<Rightarrow> timeline" where
  "addTimeBar nm lbl sd ed dts s =
     (let newTimebar = \<lparr>name = nm, label = lbl, startDate = sd, endDate = ed, dateTimes = dts\<rparr>
      in redraw (reHeight (s\<lparr>timebars := timebars s @ [newTimebar]\<rparr>)))"

text \<open>
  \<^verbatim>\<open>
  opec.TimeLine.prototype.removeTimeBar = function(index) {
     this.timebars.splice(index, 1);
     var temp = this.timebars;
     // Kludge to clear out the display
     this.timebars = [];
     this.reHeight();
     this.redraw();
     // Now re-instate the newly altered array and redraw
     this.timebars = temp;
     this.reHeight();
     this.redraw();
  };
  \<close>
  The index is an integer.
\<close>

definition clear_and_restore :: "timebar list \<Rightarrow> timeline \<Rightarrow> timeline" where
  "clear_and_restore temp s =
     (let s1 = redraw (reHeight (s\<lparr>timebars := []\<rparr>))
      in redraw (reHeight (s1\<lparr>timebars := temp\<rparr>)))"

definition removeTimeBar :: "int \<Rightarrow> timeline \<Rightarrow> timeline" where
  "removeTimeBar index s =
     (let temp = js_splice index 1 (timebars s)
      in clear_and_restore temp s)"

text \<open>
  \<^verbatim>\<open>
  opec.TimeLine.prototype.removeTimeBarByName = function(name) {
     var self = this;
     var match = false;
     for (var i = 0; i < self.timebars.length; i++){
        if (self.timebars[i].name == name) {
           self.timebars.splice(i, 1);
           i--;
           match = true;
        }
     }
     var temp = this.timebars;
     // Return and do nothing if no match
     if (!match){ return; }
     else{
        // Kludge to clear out the display
        self.timebars = [];
        self.reHeight();
        self.redraw();
        // Now re-instate the newly altered array and redraw
        self.timebars = temp;
        self.reHeight();
        self.redraw();
     }
  };
  \<close>
  The loop, from the test of its condition with the counter at \<open>i\<close>. After a removal
  the \<open>i--\<close> of the body and the \<open>i++\<close> of the loop leave the counter where it was.
\<close>

function removeByName_loop :: "string \<Rightarrow> nat \<Rightarrow> timebar list \<Rightarrow> bool \<Rightarrow> timebar list \<times> bool" where
  "removeByName_loop nm i tbs match =
     (if i < length tbs then
        (if name (tbs ! i) = nm then removeByName_loop nm i (js_splice (int i) 1 tbs) True
         else removeByName_loop nm (i + 1) tbs match)
      else (tbs, match))"
  by pat_completeness auto
termination
  by (relation "measure (\<lambda>(nm, i, tbs, match). length tbs - i)")
    (auto simp: js_splice_def Let_def)

declare removeByName_loop.simps [simp del]

definition removeTimeBarByName :: "string \<Rightarrow> timeline \<Rightarrow> timeline" where
  "removeTimeBarByName nm s =
     (let (temp, match) = removeByName_loop nm 0 (timebars s) False
      in if \<not> match then s\<lparr>timebars := temp\<rparr>
         else clear_and_restore temp s)"

section \<open>Example inputs\<close>

text \<open>
  Options objects and widgets on which the theorems below are instantiated:
  \<open>default_options\<close> has every option \<open>null\<close>, \<open>no_options\<close> is the empty
  object, \<open>example_options\<close> gives every option a value, and \<open>example_widget cw tbs\<close>
  is the widget constructed on 2020-07-01 in a container of width \<open>cw\<close> from
  \<open>default_options\<close> with the time bars \<open>tbs\<close>.
\<close>

definition default_options :: options where
  "default_options =
     \<lparr>opt_selectedDate = Null, opt_chartMargins = Null, opt_barHeight = Null,
      opt_barMargin = Null, opt_timebars = Null\<rparr>"

definition no_options :: options where
  "no_options =
     \<lparr>opt_selectedDate = Undefined, opt_chartMargins = Undefined, opt_barHeight = Undefined,
      opt_barMargin = Undefined, opt_timebars = Undefined\<rparr>"

definition bar_between :: "string \<Rightarrow> int \<Rightarrow> int \<Rightarrow> timebar" where
  "bar_between nm a b = \<lparr>name = nm, label = nm, startDate = a, endDate = b, dateTimes = []\<rparr>"

definition example_widget :: "real \<Rightarrow> timebar list \<Rightarrow> timeline" where
  "example_widget cw tbs =
     construct_body cw 1593561600000 (default_options\<lparr>opt_timebars := Val tbs\<rparr>)"

definition example_options :: options where
  "example_options =
     \<lparr>opt_selectedDate = Val 1593561600000,
      opt_chartMargins = Val \<lparr>margin_top = 10, margin_right = 20, margin_bottom = 30,
                               margin_left = 40\<rparr>,
      opt_barHeight = Val 10,
      opt_barMargin = Val 2,
      opt_timebars = Val [bar_between ''a'' 1577836800000 1590969600000,
                          bar_between ''b'' 1580515200000 1609372800000,
                          bar_between ''c'' 1583020800000 1593561600000]\<rparr>"

section \<open>Fields that the operations keep\<close>

lemma reHeight_keeps:
  "timebars (reHeight s) = timebars s"
  "laneHeight (reHeight s) = laneHeight s"
  "margin (reHeight s) = margin s"
  "visible (reHeight s) = visible s"
  "width (reHeight s) = width s"
  "chartWidth (reHeight s) = chartWidth s"
  "xScale (reHeight s) = xScale s"
  "redraws (reHeight s) = redraws s"
  "selectedDate (reHeight s) = selectedDate s"
  "draggedDate (reHeight s) = draggedDate s"
  "barHeight (reHeight s) = barHeight s"
  "barMargin (reHeight s) = barMargin s"
  "now (reHeight s) = now s"
  "xAxis (reHeight s) = xAxis s"
  "dom (reHeight s) = dom s"
  by (simp_all add: reHeight_def Let_def)

lemma reWidth_keeps:
  "timebars (reWidth cw s) = timebars s"
  "laneHeight (reWidth cw s) = laneHeight s"
  "margin (reWidth cw s) = margin s"
  "visible (reWidth cw s) = visible s"
  "height (reWidth cw s) = height s"
  "chartHeight (reWidth cw s) = chartHeight s"
  "xScale (reWidth cw s) = xScale s"
  "redraws (reWidth cw s) = redraws s"
  "selectedDate (reWidth cw s) = selectedDate s"
  "draggedDate (reWidth cw s) = draggedDate s"
  "barHeight (reWidth cw s) = barHeight s"
  "barMargin (reWidth cw s) = barMargin s"
  "now (reWidth cw s) = now s"
  "xAxis (reWidth cw s) = xAxis s"
  "dom (reWidth cw s) = dom s"
  by (simp_all add: reWidth_def)

lemma reHeight_height:
  "height (reHeight s) =
     (if num_mul (laneHeight s) (Num (of_nat (length (timebars s)))) = Num 0 then Num 25
      else num_mul (laneHeight s) (Num (of_nat (length (timebars s)))))"
  "chartHeight (reHeight s) =
     num_add (num_add (num_add (height (reHeight s)) (Num (margin_top (margin s))))
       (Num (margin_bottom (margin s)))) (Num 20)"
  by (simp_all add: reHeight_def Let_def)

lemma reHeight_Num:
  assumes "laneHeight s = Num lh" and "lh \<noteq> 0"
  shows "height (reHeight s) =
           Num (if timebars s \<noteq> [] then lh * of_nat (length (timebars s)) else 25)"
    and "chartHeight (reHeight s) =
           Num ((if timebars s \<noteq> [] then lh * of_nat (length (timebars s)) else 25)
                + margin_top (margin s) + margin_bottom (margin s) + 20)"
  using assms by (simp_all add: reHeight_height)

lemma reWidth_width:
  "chartWidth (reWidth cw s) = Num cw"
  "width (reWidth cw s) = Num (cw - margin_right (margin s) - margin_left (margin s))"
  by (simp_all add: reWidth_def num_sub_def)

lemmas redraw_parts =
  redraw_def redraw_labels_def redraw_markers_def redraw_dateDetails_def redraw_bars_def
  redraw_sepLines_def redraw_ticks_def redraw_frame_def redraw_scales_def

lemma redraw_keeps:
  "timebars (redraw s) = timebars s"
  "laneHeight (redraw s) = laneHeight s"
  "margin (redraw s) = margin s"
  "visible (redraw s) = visible s"
  "height (redraw s) = height s"
  "chartHeight (redraw s) = chartHeight s"
  "width (redraw s) = width s"
  "chartWidth (redraw s) = chartWidth s"
  "selectedDate (redraw s) = selectedDate s"
  "draggedDate (redraw s) = draggedDate s"
  "barHeight (redraw s) = barHeight s"
  "barMargin (redraw s) = barMargin s"
  "now (redraw s) = now s"
  "sdomain (xScale (redraw s)) = sdomain (xScale s)"
  "srange (xScale (redraw s)) = (Num 0, width s)"
  "redraws (redraw s) = redraws s + 1"
  by (simp_all add: redraw_parts)

lemma redraw_mainWidth:
  "mainWidth (dom (redraw s)) = Some (width s)"
  by (simp add: redraw_parts)


lemma init_scales_keeps:
  "timebars (init_scales s) = timebars s"
  "laneHeight (init_scales s) = laneHeight s"
  "margin (init_scales s) = margin s"
  "visible (init_scales s) = visible s"
  "height (init_scales s) = height s"
  "chartHeight (init_scales s) = chartHeight s"
  "width (init_scales s) = width s"
  "chartWidth (init_scales s) = chartWidth s"
  "selectedDate (init_scales s) = selectedDate s"
  "barHeight (init_scales s) = barHeight s"
  "barMargin (init_scales s) = barMargin s"
  "now (init_scales s) = now s"
  "redraws (init_scales s) = redraws s"
  "sdomain (xScale (init_scales s)) = init_domain (timebars s) (selectedDate s)"
  by (simp_all add: init_scales_def)

lemma clear_and_restore_fields:
  "timebars (clear_and_restore temp s) = temp"
  "redraws (clear_and_restore temp s) = redraws s + 2"
  "laneHeight (clear_and_restore temp s) = laneHeight s"
  "height (clear_and_restore temp s) = height (reHeight (s\<lparr>timebars := temp\<rparr>))"
  by (simp_all add: clear_and_restore_def Let_def redraw_keeps reHeight_keeps reHeight_height)

section \<open>The constructed widget\<close>

lemma construct_fields:
  assumes "construct (Some cw) clock opts = Some s"
  shows "visible s"
    and "timebars s = init_timebars (opt_timebars opts)"
    and "barHeight s = init_barHeight (opt_barHeight opts)"
    and "barMargin s = init_barMargin (opt_barMargin opts)"
    and "now s = date_of clock"
    and "selectedDate s = init_selectedDate clock (opt_selectedDate opts)"
    and "draggedDate s = selectedDate s"
    and "margin s = init_margin (opt_chartMargins opts)"
    and "laneHeight s = init_laneHeight (barHeight s) (barMargin s)"
    and "height s = height (reHeight s)"
    and "chartHeight s = chartHeight (reHeight s)"
    and "chartWidth s = Num cw"
    and "width s = Num (cw - margin_right (margin s) - margin_left (margin s))"
    and "sdomain (xScale s) = init_domain (timebars s) (selectedDate s)"
    and "srange (xScale s) = (Num 0, width s)"
    and "redraws s = 1"
proof -
  define s0 where "s0 = init_fields clock opts"
  define s3 where "s3 = (init_scales (reWidth cw (reHeight s0)))
    \<lparr>draggedDate := selectedDate (init_scales (reWidth cw (reHeight s0)))\<rparr>"
  have s: "s = redraw s3"
    using assms by (simp add: construct_def construct_body_def Let_def s3_def s0_def)
  have s0: "visible s0" "timebars s0 = init_timebars (opt_timebars opts)"
    "barHeight s0 = init_barHeight (opt_barHeight opts)"
    "barMargin s0 = init_barMargin (opt_barMargin opts)"
    "now s0 = date_of clock"
    "selectedDate s0 = init_selectedDate clock (opt_selectedDate opts)"
    "margin s0 = init_margin (opt_chartMargins opts)"
    "laneHeight s0 = init_laneHeight (barHeight s0) (barMargin s0)"
    "redraws s0 = 0"
    by (simp_all add: s0_def init_fields_def)
  show "visible s" "timebars s = init_timebars (opt_timebars opts)"
    "barHeight s = init_barHeight (opt_barHeight opts)"
    "barMargin s = init_barMargin (opt_barMargin opts)"
    "now s = date_of clock"
    "selectedDate s = init_selectedDate clock (opt_selectedDate opts)"
    "draggedDate s = selectedDate s"
    "margin s = init_margin (opt_chartMargins opts)"
    "laneHeight s = init_laneHeight (barHeight s) (barMargin s)"
    "chartWidth s = Num cw"
    "redraws s = 1"
    by (simp_all add: s s3_def redraw_keeps init_scales_keeps reWidth_keeps reHeight_keeps s0
        reWidth_width)
  show "width s = Num (cw - margin_right (margin s) - margin_left (margin s))"
    by (simp add: s s3_def redraw_keeps init_scales_keeps reWidth_keeps reHeight_keeps
        reWidth_width)
  show "sdomain (xScale s) = init_domain (timebars s) (selectedDate s)"
    by (simp add: s s3_def redraw_keeps init_scales_keeps reWidth_keeps reHeight_keeps)
  show "srange (xScale s) = (Num 0, width s)"
    by (simp add: s s3_def redraw_keeps)
  show "height s = height (reHeight s)" "chartHeight s = chartHeight (reHeight s)"
    by (simp_all add: s s3_def redraw_keeps init_scales_keeps reWidth_keeps reHeight_keeps
        reHeight_height)
qed

lemma init_laneHeight_Val:
  "init_laneHeight (Val bh) (Val bm) = Num (bh + 2 * bm + 1)"
  by (simp add: init_laneHeight_def mult.commute)

lemma example_widget_construct:
  "construct (Some cw) 1593561600000 (default_options\<lparr>opt_timebars := Val tbs\<rparr>)
     = Some (example_widget cw tbs)"
  by (simp add: example_widget_def construct_def)

lemmas example_fields = construct_fields [OF example_widget_construct]

lemma example_widget_fields:
  "timebars (example_widget cw tbs) = tbs"
  "barHeight (example_widget cw tbs) = Val 20"
  "barMargin (example_widget cw tbs) = Val 4"
  "laneHeight (example_widget cw tbs) = Num 29"
  "width (example_widget cw tbs) = Num cw"
  "margin (example_widget cw tbs) =
     \<lparr>margin_top = 0, margin_right = 0, margin_bottom = 0, margin_left = 0\<rparr>"
  "selectedDate (example_widget cw tbs) = date_of 1593561600000"
  "draggedDate (example_widget cw tbs) = date_of 1593561600000"
  "srange (xScale (example_widget cw tbs)) = (Num 0, Num cw)"
  "visible (example_widget cw tbs)"
  "redraws (example_widget cw tbs) = 1"
  by (simp_all add: example_fields default_options_def init_timebars_def init_barHeight_def
      init_barMargin_def init_margin_def init_laneHeight_def init_selectedDate_def)

lemma example_widget_height:
  "height (example_widget cw tbs) = Num (if tbs \<noteq> [] then 29 * of_nat (length tbs) else 25)"
  using example_fields(10) [of cw tbs] reHeight_Num(1) [of "example_widget cw tbs" 29]
  by (simp add: example_widget_fields)

section \<open>Dates and scales on numbers\<close>

lemma new_Date_date_of:
  "\<bar>t\<bar> \<le> 8640000000000000 \<Longrightarrow> new_Date (date_of t) = date_of t"
proof -
  assume a: "\<bar>t\<bar> \<le> 8640000000000000"
  then have "\<bar>real_of_int t\<bar> \<le> 8640000000000000"
    by (metis of_int_abs of_int_le_iff of_int_numeral)
  then show ?thesis
    by (simp add: new_Date_def date_of_def)
qed

lemma new_Date_shift:
  assumes "\<bar>t\<bar> \<le> 8640000000000000 - 15778450000"
  shows "new_Date (num_sub (date_of t) (Num 15778450000)) = date_of (t - 15778450000)"
    and "new_Date (num_add (date_of t) (Num 15778450000)) = date_of (t + 15778450000)"
proof -
  have "num_sub (date_of t) (Num 15778450000) = date_of (t - 15778450000)"
    "num_add (date_of t) (Num 15778450000) = date_of (t + 15778450000)"
    by (simp_all add: date_of_def num_sub_def)
  moreover have "\<bar>t - 15778450000\<bar> \<le> 8640000000000000" "\<bar>t + 15778450000\<bar> \<le> 8640000000000000"
    using assms by linarith+
  ultimately show "new_Date (num_sub (date_of t) (Num 15778450000)) = date_of (t - 15778450000)"
    and "new_Date (num_add (date_of t) (Num 15778450000)) = date_of (t + 15778450000)"
    by (simp_all add: new_Date_date_of)
qed




lemma foldl_min_dates:
  "foldl (\<lambda>a b. if num_gt a b then b else a) (date_of x) (map date_of xs) = date_of (fold min xs x)"
  by (induction xs arbitrary: x) (auto simp: date_of_def min_def)

lemma foldl_max_dates:
  "foldl (\<lambda>a b. if num_gt b a then b else a) (date_of x) (map date_of xs) = date_of (fold max xs x)"
  by (induction xs arbitrary: x) (auto simp: date_of_def max_def)

lemma d3_min_dates:
  "xs \<noteq> [] \<Longrightarrow> d3_min (map date_of xs) = Some (date_of (Min (set xs)))"
  by (cases xs) (simp_all add: foldl_min_dates Min.set_eq_fold del: set_simps)

lemma d3_max_dates:
  "xs \<noteq> [] \<Longrightarrow> d3_max (map date_of xs) = Some (date_of (Max (set xs)))"
  by (cases xs) (simp_all add: foldl_max_dates Max.set_eq_fold del: set_simps)

lemma init_domain_empty:
  "init_domain [] sel = (new_Date (num_sub sel (Num 15778450000)), new_Date (num_add sel (Num 15778450000)))"
  by (simp add: init_domain_def)

lemma init_domain_bars:
  assumes "tbs \<noteq> []"
  shows "init_domain tbs sel =
    (date_of (Min (startDate ` set tbs)), date_of (Max (endDate ` set tbs)))"
proof -
  have "d3_min (map date_of (map startDate tbs)) = Some (date_of (Min (set (map startDate tbs))))"
    using assms by (intro d3_min_dates) simp
  then have a: "d3_min (map (\<lambda>d. date_of (startDate d)) tbs) = Some (date_of (Min (startDate ` set tbs)))"
    by (simp add: comp_def)
  have "d3_max (map date_of (map endDate tbs)) = Some (date_of (Max (set (map endDate tbs))))"
    using assms by (intro d3_max_dates) simp
  then have b: "d3_max (map (\<lambda>d. date_of (endDate d)) tbs) = Some (date_of (Max (endDate ` set tbs)))"
    by (simp add: comp_def)
  show ?thesis
    unfolding init_domain_def a b by simp
qed


section \<open>The tick policy\<close>





section \<open>The geometry\<close>

text \<open>
  Claim C2. For non-negative \<open>barHeight\<close> and \<open>barMargin\<close> (and any margins and
  number of bars), the constructed widget has
  \<open>laneHeight = barHeight + 2 * barMargin + 1\<close>, \<open>height = laneHeight * n\<close> for
  \<open>n > 0\<close> bars and \<open>25\<close> for none,
  \<open>chartHeight = height + margin.top + margin.bottom + 20\<close> and
  \<open>width = containerWidth - margin.left - margin.right\<close>; and \<open>reHeight\<close> and
  \<open>reWidth\<close> compute the same from any later list of bars and container width.
\<close>

theorem geometry_contract:
  assumes "construct (Some cw) clock opts = Some s"
    and "barHeight s = Val bh" and "barMargin s = Val bm"
    and "0 \<le> bh" and "0 \<le> bm"
  shows "laneHeight s = Num (bh + 2 * bm + 1) \<and>
    height s = Num (if 0 < length (timebars s)
                    then (bh + 2 * bm + 1) * of_nat (length (timebars s)) else 25) \<and>
    chartHeight s = num_add (num_add (num_add (height s) (Num (margin_top (margin s))))
                      (Num (margin_bottom (margin s)))) (Num 20) \<and>
    width s = Num (cw - margin_left (margin s) - margin_right (margin s)) \<and>
    (\<forall>tbs. height (reHeight (s\<lparr>timebars := tbs\<rparr>)) =
             Num (if 0 < length tbs then (bh + 2 * bm + 1) * of_nat (length tbs) else 25) \<and>
           chartHeight (reHeight (s\<lparr>timebars := tbs\<rparr>)) =
             Num ((if 0 < length tbs then (bh + 2 * bm + 1) * of_nat (length tbs) else 25)
                  + margin_top (margin s) + margin_bottom (margin s) + 20)) \<and>
    (\<forall>cw'. width (reWidth cw' s) = Num (cw' - margin_left (margin s) - margin_right (margin s)))"
proof -
  have lane: "laneHeight s = Num (bh + 2 * bm + 1)"
    using construct_fields(9) [OF assms(1)] assms(2,3) by (simp add: init_laneHeight_Val)
  have pos: "bh + 2 * bm + 1 \<noteq> 0"
    using assms(4,5) by linarith
  have h: "height s = Num (if 0 < length (timebars s)
                    then (bh + 2 * bm + 1) * of_nat (length (timebars s)) else 25)"
    using construct_fields(10) [OF assms(1)] reHeight_Num(1) [OF lane pos] by simp
  have ch: "chartHeight s = num_add (num_add (num_add (height s) (Num (margin_top (margin s))))
                      (Num (margin_bottom (margin s)))) (Num 20)"
    using construct_fields(10,11) [OF assms(1)] by (simp add: reHeight_height(2))
  have w: "width s = Num (cw - margin_left (margin s) - margin_right (margin s))"
    using construct_fields(13) [OF assms(1)] by (simp add: algebra_simps)
  have re: "height (reHeight (s\<lparr>timebars := tbs\<rparr>)) =
             Num (if 0 < length tbs then (bh + 2 * bm + 1) * of_nat (length tbs) else 25) \<and>
           chartHeight (reHeight (s\<lparr>timebars := tbs\<rparr>)) =
             Num ((if 0 < length tbs then (bh + 2 * bm + 1) * of_nat (length tbs) else 25)
                  + margin_top (margin s) + margin_bottom (margin s) + 20)" for tbs
    using reHeight_Num [of "s\<lparr>timebars := tbs\<rparr>" "bh + 2 * bm + 1"] lane pos by simp
  have rw: "width (reWidth cw' s) = Num (cw' - margin_left (margin s) - margin_right (margin s))"
    for cw'
    by (simp add: reWidth_width algebra_simps)
  from lane h ch w re rw show ?thesis by blast
qed

text \<open>
  The geometry of the widget constructed from \<open>example_options\<close> (bar height 10, bar
  margin 2, margins 10, 20, 30, 40, three bars) in a container of width 1000.
\<close>

theorem geometry_contract_witness:
  "\<exists>s. construct (Some 1000) 1593561600000 example_options = Some s \<and>
       barHeight s = Val 10 \<and> barMargin s = Val 2 \<and> (0 :: real) \<le> 10 \<and> (0 :: real) \<le> 2 \<and>
       length (timebars s) = 3 \<and>
       laneHeight s = Num 15 \<and> height s = Num 45 \<and> chartHeight s = Num 105 \<and>
       width s = Num 940 \<and>
       height (reHeight (s\<lparr>timebars := []\<rparr>)) = Num 25 \<and>
       chartHeight (reHeight (s\<lparr>timebars := []\<rparr>)) = Num 85 \<and>
       width (reWidth 500 s) = Num 440"
proof -
  obtain s where s: "construct (Some 1000) 1593561600000 example_options = Some s"
    by (simp add: construct_def)
  note f = construct_fields [OF s]
  have bh: "barHeight s = Val 10" and bm: "barMargin s = Val 2"
    and m: "margin s = \<lparr>margin_top = 10, margin_right = 20, margin_bottom = 30, margin_left = 40\<rparr>"
    and n: "length (timebars s) = 3"
    by (simp_all add: f example_options_def init_barHeight_def init_barMargin_def
        init_margin_def init_timebars_def)
  have g: "laneHeight s = Num 15 \<and> height s = Num 45 \<and> chartHeight s = Num 105 \<and>
       width s = Num 940 \<and>
       height (reHeight (s\<lparr>timebars := []\<rparr>)) = Num 25 \<and>
       chartHeight (reHeight (s\<lparr>timebars := []\<rparr>)) = Num 85 \<and>
       width (reWidth 500 s) = Num 440"
    using geometry_contract [OF s bh bm] by (simp add: m n)
  from s bh bm n g show ?thesis by simp
qed

section \<open>The drag of the selected date\<close>






section \<open>Removing bars by name\<close>

lemma js_splice_one:
  "i < length xs \<Longrightarrow> js_splice (int i) 1 xs = take i xs @ drop (Suc i) xs"
  by (simp add: js_splice_def Let_def nat_add_distrib)

lemma removeByName_loop_filter:
  "i \<le> length tbs \<Longrightarrow>
   removeByName_loop nm i tbs m =
     (take i tbs @ filter (\<lambda>tb. name tb \<noteq> nm) (drop i tbs),
      m \<or> (\<exists>tb \<in> set (drop i tbs). name tb = nm))"
proof (induction nm i tbs m rule: removeByName_loop.induct)
  case (1 nm i tbs m)
  show ?case
  proof (cases "i < length tbs")
    case False
    with "1.prems" show ?thesis by (subst removeByName_loop.simps) simp
  next
    case True
    then have dr: "drop i tbs = tbs ! i # drop (Suc i) tbs"
      by (simp add: Cons_nth_drop_Suc)
    show ?thesis
    proof (cases "name (tbs ! i) = nm")
      case hit: True
      let ?tbs' = "js_splice (int i) 1 tbs"
      have sp: "?tbs' = take i tbs @ drop (Suc i) tbs"
        using True by (rule js_splice_one)
      have le: "i \<le> length ?tbs'"
        using True by (simp add: sp)
      have tk: "take i ?tbs' = take i tbs" and dp: "drop i ?tbs' = drop (Suc i) tbs"
        using True by (simp_all add: sp)
      have "removeByName_loop nm i tbs m = removeByName_loop nm i ?tbs' True"
        using True hit by (subst removeByName_loop.simps) simp
      also have "\<dots> = (take i ?tbs' @ filter (\<lambda>tb. name tb \<noteq> nm) (drop i ?tbs'),
          True \<or> (\<exists>tb \<in> set (drop i ?tbs'). name tb = nm))"
        using "1.IH"(1) [OF True hit le] .
      finally show ?thesis
        using hit by (simp add: tk dp dr)
    next
      case miss: False
      have "removeByName_loop nm i tbs m = removeByName_loop nm (i + 1) tbs m"
        using True miss by (subst removeByName_loop.simps) simp
      also have "\<dots> = (take (i + 1) tbs @ filter (\<lambda>tb. name tb \<noteq> nm) (drop (i + 1) tbs),
          m \<or> (\<exists>tb \<in> set (drop (i + 1) tbs). name tb = nm))"
        using "1.IH"(2) [OF True miss] True by simp
      finally show ?thesis
        using miss True by (simp add: dr take_Suc_conv_app_nth)
    qed
  qed
qed

lemma removeByName_loop_0:
  "removeByName_loop nm 0 tbs False =
     (filter (\<lambda>tb. name tb \<noteq> nm) tbs, \<exists>tb \<in> set tbs. name tb = nm)"
  using removeByName_loop_filter [of 0 tbs nm False] by simp

text \<open>
  Claim C4. \<open>removeTimeBarByName\<close> removes every bar of the given name and keeps the
  other bars in their order; when no bar has the name the widget is left exactly as it
  was (bars, height, drawn elements, and no redraw); when a bar has it, the display is
  redrawn twice.
\<close>

theorem removeTimeBarByName_all:
  "timebars (removeTimeBarByName nm s) = filter (\<lambda>tb. name tb \<noteq> nm) (timebars s) \<and>
   ((\<forall>tb \<in> set (timebars s). name tb \<noteq> nm) \<longrightarrow> removeTimeBarByName nm s = s) \<and>
   ((\<exists>tb \<in> set (timebars s). name tb = nm) \<longrightarrow>
      redraws (removeTimeBarByName nm s) = redraws s + 2)"
proof (cases "\<exists>tb \<in> set (timebars s). name tb = nm")
  case True
  then have eq: "removeTimeBarByName nm s =
      clear_and_restore (filter (\<lambda>tb. name tb \<noteq> nm) (timebars s)) s"
    by (simp add: removeTimeBarByName_def removeByName_loop_0)
  have a: "timebars (removeTimeBarByName nm s) = filter (\<lambda>tb. name tb \<noteq> nm) (timebars s)"
    by (simp add: eq clear_and_restore_fields)
  have b: "(\<forall>tb \<in> set (timebars s). name tb \<noteq> nm) \<longrightarrow> removeTimeBarByName nm s = s"
    using True by blast
  have c: "redraws (removeTimeBarByName nm s) = redraws s + 2"
    by (simp add: eq clear_and_restore_fields)
  from a b c show ?thesis by blast
next
  case False
  then have same: "filter (\<lambda>tb. name tb \<noteq> nm) (timebars s) = timebars s"
    by (simp add: filter_id_conv)
  from False have "removeTimeBarByName nm s = s\<lparr>timebars := timebars s\<rparr>"
    by (simp add: removeTimeBarByName_def removeByName_loop_0 same)
  then have eq: "removeTimeBarByName nm s = s"
    by simp
  have a: "timebars (removeTimeBarByName nm s) = filter (\<lambda>tb. name tb \<noteq> nm) (timebars s)"
    by (simp add: eq same)
  from a eq False show ?thesis by blast
qed

text \<open>
  Four bars named a, b, a, c: removing a leaves b, c after two redraws; removing z
  changes nothing.
\<close>

theorem removeTimeBarByName_all_witness:
  "timebars (example_widget 1000 [bar_between ''a'' 0 10, bar_between ''b'' 5 20,
                                  bar_between ''a'' 7 30, bar_between ''c'' 8 40])
     = [bar_between ''a'' 0 10, bar_between ''b'' 5 20, bar_between ''a'' 7 30,
        bar_between ''c'' 8 40] \<and>
   timebars (removeTimeBarByName ''a''
     (example_widget 1000 [bar_between ''a'' 0 10, bar_between ''b'' 5 20,
                           bar_between ''a'' 7 30, bar_between ''c'' 8 40]))
     = [bar_between ''b'' 5 20, bar_between ''c'' 8 40] \<and>
   redraws (removeTimeBarByName ''a''
     (example_widget 1000 [bar_between ''a'' 0 10, bar_between ''b'' 5 20,
                           bar_between ''a'' 7 30, bar_between ''c'' 8 40])) = 3 \<and>
   removeTimeBarByName ''z''
     (example_widget 1000 [bar_between ''a'' 0 10, bar_between ''b'' 5 20,
                           bar_between ''a'' 7 30, bar_between ''c'' 8 40])
     = example_widget 1000 [bar_between ''a'' 0 10, bar_between ''b'' 5 20,
                            bar_between ''a'' 7 30, bar_between ''c'' 8 40]"
proof -
  let ?tbs = "[bar_between ''a'' 0 10, bar_between ''b'' 5 20, bar_between ''a'' 7 30,
               bar_between ''c'' 8 40]"
  let ?s = "example_widget 1000 ?tbs"
  have tb: "timebars ?s = ?tbs"
    by (simp add: example_widget_fields)
  have hit: "\<exists>tb \<in> set (timebars ?s). name tb = ''a''"
    and miss: "\<forall>tb \<in> set (timebars ?s). name tb \<noteq> ''z''"
    unfolding tb by (simp_all add: bar_between_def)
  have flt: "filter (\<lambda>tb. name tb \<noteq> ''a'') (timebars ?s) = [bar_between ''b'' 5 20, bar_between ''c'' 8 40]"
    unfolding tb by (simp add: bar_between_def)
  from removeTimeBarByName_all [of "''a''" ?s] hit
  have a: "timebars (removeTimeBarByName ''a'' ?s) = filter (\<lambda>tb. name tb \<noteq> ''a'') (timebars ?s)"
    and b: "redraws (removeTimeBarByName ''a'' ?s) = redraws ?s + 2"
    by blast+
  from removeTimeBarByName_all [of "''z''" ?s] miss
  have c: "removeTimeBarByName ''z'' ?s = ?s"
    by blast
  from b have b': "redraws (removeTimeBarByName ''a'' ?s) = 3"
    by (simp add: example_widget_fields)
  from a flt have a': "timebars (removeTimeBarByName ''a'' ?s) = [bar_between ''b'' 5 20, bar_between ''c'' 8 40]"
    by simp
  from tb a' b' c show ?thesis by blast
qed

section \<open>The height when bars are added and removed\<close>

lemma length_js_splice:
  "index < int (length xs) \<Longrightarrow> length (js_splice index 1 xs) = length xs - 1"
  by (auto simp: js_splice_def Let_def max_def min_def)

lemma add_height:
  "height (addTimeBar nm lbl sd ed dts s) =
     height (reHeight (s\<lparr>timebars := timebars s @
       [\<lparr>name = nm, label = lbl, startDate = sd, endDate = ed, dateTimes = dts\<rparr>]\<rparr>))"
  "height (addTimeBarJSON tb s) = height (reHeight (s\<lparr>timebars := timebars s @ [tb]\<rparr>))"
  by (simp_all add: addTimeBar_def addTimeBarJSON_def Let_def redraw_keeps)

lemma remove_height:
  "height (removeTimeBar index s) =
     height (reHeight (s\<lparr>timebars := js_splice index 1 (timebars s)\<rparr>))"
  by (simp add: removeTimeBar_def Let_def clear_and_restore_fields)

text \<open>
  Claim C5 says that, for every widget state, adding a bar increases the height by exactly
  one \<open>laneHeight\<close>. On the widget with no bars and the default bar height and margin
  the height is the default 25 and \<open>laneHeight\<close> is 29; after \<open>addTimeBar\<close> the
  height is 29, not 25 + 29.
\<close>

theorem add_to_empty_counterexample:
  "height (example_widget 1000 []) = Num 25 \<and>
   laneHeight (example_widget 1000 []) = Num 29 \<and>
   height (addTimeBar ''a'' ''A'' 1577836800000 1590969600000 [] (example_widget 1000 [])) = Num 29 \<and>
   height (addTimeBar ''a'' ''A'' 1577836800000 1590969600000 [] (example_widget 1000 []))
     \<noteq> num_add (height (example_widget 1000 [])) (laneHeight (example_widget 1000 []))"
  by (simp add: add_height reHeight_height example_widget_height example_widget_fields)

text \<open>
  Claim C5, amended. In a widget state whose \<open>laneHeight\<close> is a number other than zero
  and whose \<open>height\<close> is up to date: \<open>addTimeBar\<close> and \<open>addTimeBarJSON\<close> increase
  the height by exactly one \<open>laneHeight\<close> when at least one bar is present, and take it
  from the default 25 to one \<open>laneHeight\<close> when none is; \<open>removeTimeBar\<close> with an
  index below the number of bars decreases the height by exactly one \<open>laneHeight\<close> when
  at least two bars are present; removing the last remaining bar gives the default 25.
\<close>

theorem height_changes_by_lane:
  assumes lane: "laneHeight s = Num lh" and lh: "lh \<noteq> 0"
    and cur: "height s = height (reHeight s)"
  shows
   "(timebars s \<noteq> [] \<longrightarrow>
       height (addTimeBar nm lbl sd ed dts s) = num_add (height s) (laneHeight s) \<and>
       height (addTimeBarJSON tb s) = num_add (height s) (laneHeight s)) \<and>
    (timebars s = [] \<longrightarrow>
       height s = Num 25 \<and>
       height (addTimeBar nm lbl sd ed dts s) = laneHeight s \<and>
       height (addTimeBarJSON tb s) = laneHeight s) \<and>
    (2 \<le> length (timebars s) \<and> index < int (length (timebars s)) \<longrightarrow>
       height (removeTimeBar index s) = num_sub (height s) (laneHeight s)) \<and>
    (length (timebars s) = 1 \<and> index < 1 \<longrightarrow>
       height (removeTimeBar index s) = Num 25)"
proof -
  have h: "height s = Num (if timebars s \<noteq> [] then lh * of_nat (length (timebars s)) else 25)"
    using cur reHeight_Num(1) [OF lane lh] by simp
  have upd: "height (reHeight (s\<lparr>timebars := tbs\<rparr>)) =
      Num (if tbs \<noteq> [] then lh * of_nat (length tbs) else 25)" for tbs
    using reHeight_Num(1) [of "s\<lparr>timebars := tbs\<rparr>" lh] lane lh by simp
  have a: "timebars s \<noteq> [] \<longrightarrow>
       height (addTimeBar nm lbl sd ed dts s) = num_add (height s) (laneHeight s) \<and>
       height (addTimeBarJSON tb s) = num_add (height s) (laneHeight s)"
    by (simp add: add_height upd h lane algebra_simps)
  have b: "timebars s = [] \<longrightarrow>
       height s = Num 25 \<and>
       height (addTimeBar nm lbl sd ed dts s) = laneHeight s \<and>
       height (addTimeBarJSON tb s) = laneHeight s"
    by (simp add: add_height upd h lane)
  have c: "height (removeTimeBar index s) = num_sub (height s) (laneHeight s)"
    if "2 \<le> length (timebars s) \<and> index < int (length (timebars s))"
  proof -
    have len: "length (js_splice index 1 (timebars s)) = length (timebars s) - 1"
      using that by (simp add: length_js_splice)
    then have ne: "js_splice index 1 (timebars s) \<noteq> []" "timebars s \<noteq> []"
      using that by auto
    have "real (length (timebars s) - 1) = real (length (timebars s)) - 1"
      using that by (simp add: of_nat_diff)
    then show ?thesis
      using ne by (simp add: remove_height upd h lane len num_sub_def algebra_simps)
  qed
  have d: "height (removeTimeBar index s) = Num 25"
    if "length (timebars s) = 1 \<and> index < 1"
  proof -
    have "length (js_splice index 1 (timebars s)) = 0"
      using that by (simp add: length_js_splice)
    then show ?thesis
      by (simp add: remove_height upd)
  qed
  from a b c d show ?thesis by blast
qed

text \<open>
  With the default lane height 29: two bars have height 58, a third makes it 87,
  removing one makes it 29; removing the only bar gives 25, and adding a bar to none
  gives 29.
\<close>

theorem height_changes_by_lane_witness:
  "laneHeight (example_widget 1000 [bar_between ''a'' 0 10, bar_between ''b'' 5 20]) = Num 29 \<and>
   (29 :: real) \<noteq> 0 \<and>
   height (example_widget 1000 [bar_between ''a'' 0 10, bar_between ''b'' 5 20])
     = height (reHeight (example_widget 1000 [bar_between ''a'' 0 10, bar_between ''b'' 5 20])) \<and>
   height (example_widget 1000 [bar_between ''a'' 0 10, bar_between ''b'' 5 20]) = Num 58 \<and>
   height (addTimeBar ''c'' ''C'' 8 40 []
      (example_widget 1000 [bar_between ''a'' 0 10, bar_between ''b'' 5 20])) = Num 87 \<and>
   height (removeTimeBar 0
      (example_widget 1000 [bar_between ''a'' 0 10, bar_between ''b'' 5 20])) = Num 29 \<and>
   height (removeTimeBar 0 (example_widget 1000 [bar_between ''a'' 0 10])) = Num 25 \<and>
   height (example_widget 1000 []) = Num 25 \<and>
   height (addTimeBar ''c'' ''C'' 8 40 [] (example_widget 1000 [])) = Num 29"
proof -
  let ?two = "example_widget 1000 [bar_between ''a'' 0 10, bar_between ''b'' 5 20]"
  let ?one = "example_widget 1000 [bar_between ''a'' 0 10]"
  let ?none = "example_widget 1000 []"
  have cur: "height (example_widget cw tbs) = height (reHeight (example_widget cw tbs))" for cw tbs
    by (rule example_fields(10))
  have lane: "laneHeight (example_widget cw tbs) = Num 29" for cw tbs
    by (simp add: example_widget_fields)
  have nz: "(29 :: real) \<noteq> 0" by simp
  have h: "height ?two = Num 58" "height ?none = Num 25"
    by (simp_all add: example_widget_height)
  have len: "timebars ?two \<noteq> []" "2 \<le> length (timebars ?two) \<and> 0 < int (length (timebars ?two))"
    "length (timebars ?one) = 1 \<and> (0 :: int) < 1" "timebars ?none = []"
    by (simp_all add: example_widget_fields)
  from height_changes_by_lane [OF lane nz cur, where index = 0 and nm = "''c''" and lbl = "''C''"
      and sd = 8 and ed = 40 and dts = "[]"] len(1,2)
  have a: "height (addTimeBar ''c'' ''C'' 8 40 [] ?two) = num_add (height ?two) (laneHeight ?two)"
    and r: "height (removeTimeBar 0 ?two) = num_sub (height ?two) (laneHeight ?two)"
    by blast+
  from height_changes_by_lane [OF lane nz cur, where index = 0] len(3)
  have l: "height (removeTimeBar 0 ?one) = Num 25"
    by blast
  from height_changes_by_lane [OF lane nz cur, where index = 0 and nm = "''c''" and lbl = "''C''"
      and sd = 8 and ed = 40 and dts = "[]"] len(4)
  have z: "height (addTimeBar ''c'' ''C'' 8 40 [] ?none) = laneHeight ?none"
    by blast
  from a r l z h cur [of 1000 "[bar_between ''a'' 0 10, bar_between ''b'' 5 20]"] show ?thesis
    by (simp add: lane num_sub_def)
qed

section \<open>The initial domain\<close>

text \<open>
  Claim C6. The constructed widget has the bars the options give. With no bars the domain
  of the horizontal scale runs from the selected date minus 15778450000 ms to the
  selected date plus 15778450000 ms (as dates); with bars it runs from the least
  \<open>startDate\<close> to the greatest \<open>endDate\<close> of the bars.
\<close>

theorem initial_domain:
  assumes "construct (Some cw) clock opts = Some s"
  shows "timebars s = init_timebars (opt_timebars opts) \<and>
    (timebars s = [] \<longrightarrow>
       sdomain (xScale s) =
         (new_Date (num_sub (selectedDate s) (Num 15778450000)),
          new_Date (num_add (selectedDate s) (Num 15778450000)))) \<and>
    (timebars s = [] \<and> selectedDate s = date_of t \<and> \<bar>t\<bar> \<le> 8640000000000000 - 15778450000 \<longrightarrow>
       sdomain (xScale s) = (date_of (t - 15778450000), date_of (t + 15778450000))) \<and>
    (timebars s \<noteq> [] \<longrightarrow>
       sdomain (xScale s) =
         (date_of (Min (startDate ` set (timebars s))), date_of (Max (endDate ` set (timebars s)))))"
  using construct_fields(2,14) [OF assms]
  by (auto simp: init_domain_empty init_domain_bars new_Date_shift)

text \<open>
  Constructed on 2020-07-01 with no bars, the domain is
  \<open>[1577783150000, 1609340050000]\<close>; with two bars it is the least start and the
  greatest end.
\<close>

theorem initial_domain_witness:
  "construct (Some 1000) 1593561600000 (default_options\<lparr>opt_timebars := Val []\<rparr>)
     = Some (example_widget 1000 []) \<and>
   timebars (example_widget 1000 []) = [] \<and>
   selectedDate (example_widget 1000 []) = date_of 1593561600000 \<and>
   \<bar>1593561600000 :: int\<bar> \<le> 8640000000000000 - 15778450000 \<and>
   sdomain (xScale (example_widget 1000 [])) = (date_of 1577783150000, date_of 1609340050000) \<and>
   construct (Some 1000) 1593561600000
     (default_options\<lparr>opt_timebars := Val [bar_between ''a'' 1580515200000 1590969600000,
                                            bar_between ''b'' 1577836800000 1583020800000]\<rparr>)
     = Some (example_widget 1000 [bar_between ''a'' 1580515200000 1590969600000,
                                  bar_between ''b'' 1577836800000 1583020800000]) \<and>
   sdomain (xScale (example_widget 1000 [bar_between ''a'' 1580515200000 1590969600000,
                                         bar_between ''b'' 1577836800000 1583020800000]))
     = (date_of 1577836800000, date_of 1590969600000)"
proof -
  let ?e = "example_widget 1000 []"
  let ?tbs = "[bar_between ''a'' 1580515200000 1590969600000,
               bar_between ''b'' 1577836800000 1583020800000]"
  have e: "timebars ?e = []" "selectedDate ?e = date_of 1593561600000"
    "\<bar>1593561600000 :: int\<bar> \<le> 8640000000000000 - 15778450000"
    by (simp_all add: example_widget_fields)
  from initial_domain [OF example_widget_construct, of 1000 "[]" 1593561600000]
  have "timebars ?e = [] \<and> selectedDate ?e = date_of 1593561600000 \<and>
      \<bar>1593561600000 :: int\<bar> \<le> 8640000000000000 - 15778450000 \<longrightarrow>
      sdomain (xScale ?e) = (date_of (1593561600000 - 15778450000), date_of (1593561600000 + 15778450000))"
    by blast
  with e have a: "sdomain (xScale ?e) = (date_of 1577783150000, date_of 1609340050000)"
    by simp
  have ne: "timebars (example_widget 1000 ?tbs) \<noteq> []"
    by (simp add: example_widget_fields)
  from initial_domain [OF example_widget_construct, of 1000 ?tbs 0]
  have "timebars (example_widget 1000 ?tbs) \<noteq> [] \<longrightarrow>
      sdomain (xScale (example_widget 1000 ?tbs)) =
        (date_of (Min (startDate ` set (timebars (example_widget 1000 ?tbs)))),
         date_of (Max (endDate ` set (timebars (example_widget 1000 ?tbs)))))"
    by blast
  with ne have b: "sdomain (xScale (example_widget 1000 ?tbs))
      = (date_of 1577836800000, date_of 1590969600000)"
    by (simp add: example_widget_fields bar_between_def)
  from e a b show ?thesis
    by (simp add: example_widget_construct)
qed

section \<open>The defaults of the options\<close>

text \<open>
  Claim C7 says that an omitted option gets its default. Constructed from the empty
  options object, the widget has \<open>barHeight\<close> and \<open>barMargin\<close> \<open>undefined\<close>, the
  invalid date as \<open>selectedDate\<close>, and \<open>NaN\<close> as \<open>laneHeight\<close>, \<open>height\<close> and
  \<open>chartHeight\<close>; only the margins and the bars get their defaults. The defaults 20, 4
  and the current time apply when the options are \<open>null\<close>.
\<close>

theorem omitted_options_not_defaulted:
  "(\<exists>s. construct (Some cw) clock no_options = Some s \<and>
        barHeight s = Undefined \<and> barMargin s = Undefined \<and> selectedDate s = NaN \<and>
        laneHeight s = NaN \<and> height s = NaN \<and> chartHeight s = NaN \<and>
        margin s = \<lparr>margin_top = 0, margin_right = 0, margin_bottom = 0, margin_left = 0\<rparr> \<and>
        timebars s = []) \<and>
   (\<exists>s. construct (Some cw) clock default_options = Some s \<and>
        barHeight s = Val 20 \<and> barMargin s = Val 4 \<and> selectedDate s = date_of clock \<and>
        laneHeight s = Num 29 \<and> height s = Num 25 \<and>
        margin s = \<lparr>margin_top = 0, margin_right = 0, margin_bottom = 0, margin_left = 0\<rparr> \<and>
        timebars s = [])"
proof -
  obtain s where s: "construct (Some cw) clock no_options = Some s"
    by (simp add: construct_def)
  note f = construct_fields [OF s]
  have bh: "barHeight s = Undefined" and bm: "barMargin s = Undefined"
    and sd: "selectedDate s = NaN"
    and m: "margin s = \<lparr>margin_top = 0, margin_right = 0, margin_bottom = 0, margin_left = 0\<rparr>"
    and tb: "timebars s = []"
    by (simp_all add: f no_options_def init_barHeight_def init_barMargin_def
        init_selectedDate_def init_margin_def init_timebars_def)
  have lh: "laneHeight s = NaN"
    by (simp add: f(9) bh bm init_laneHeight_def)
  have h: "height s = NaN" "chartHeight s = NaN"
    using f(10,11) by (simp_all add: reHeight_height lh)
  obtain s' where s': "construct (Some cw) clock default_options = Some s'"
    by (simp add: construct_def)
  note f' = construct_fields [OF s']
  have bh': "barHeight s' = Val 20" and bm': "barMargin s' = Val 4"
    and sd': "selectedDate s' = date_of clock"
    and m': "margin s' = \<lparr>margin_top = 0, margin_right = 0, margin_bottom = 0, margin_left = 0\<rparr>"
    and tb': "timebars s' = []"
    by (simp_all add: f' default_options_def init_barHeight_def init_barMargin_def
        init_selectedDate_def init_margin_def init_timebars_def)
  have lh': "laneHeight s' = Num 29"
    by (simp add: f'(9) bh' bm' init_laneHeight_def)
  have h': "height s' = Num 25"
    using f'(10) by (simp add: reHeight_height lh' tb')
  from s bh bm sd m tb lh h s' bh' bm' sd' m' tb' lh' h' show ?thesis by blast
qed

section \<open>The nearest element\<close>




section \<open>Resize\<close>

text \<open>
  Claim C9. On a resize a visible widget recomputes its width from the container and
  redraws with it (the range of the horizontal scale and the drawing area take the new
  width); a hidden widget is left exactly as it was. So a resize redraws if and only if
  the widget is visible.
\<close>

theorem resize_only_when_visible:
  "(visible s \<longrightarrow>
      resize cw s = redraw (reWidth cw s) \<and>
      chartWidth (resize cw s) = Num cw \<and>
      width (resize cw s) = Num (cw - margin_right (margin s) - margin_left (margin s)) \<and>
      srange (xScale (resize cw s)) =
        (Num 0, Num (cw - margin_right (margin s) - margin_left (margin s))) \<and>
      mainWidth (dom (resize cw s)) =
        Some (Num (cw - margin_right (margin s) - margin_left (margin s))) \<and>
      redraws (resize cw s) = redraws s + 1) \<and>
   (\<not> visible s \<longrightarrow> resize cw s = s) \<and>
   (redraws (resize cw s) \<noteq> redraws s \<longleftrightarrow> visible s)"
proof (cases "visible s")
  case True
  then have r: "resize cw s = redraw (reWidth cw s)"
    by (simp add: resize_def)
  have w: "width (reWidth cw s) = Num (cw - margin_right (margin s) - margin_left (margin s))"
    by (rule reWidth_width(2))
  have "mainWidth (dom (redraw (reWidth cw s))) = Some (width (reWidth cw s))"
    by (rule redraw_mainWidth)
  with True r w show ?thesis
    by (simp add: redraw_keeps reWidth_keeps reWidth_width)
next
  case False
  then have "resize cw s = s"
    by (simp add: resize_def)
  with False show ?thesis
    by simp
qed

text \<open>
  A widget made in a container of width 1000 that is resized to 800: visible, it gets
  the width 800 and a second redraw; hidden, it does not change.
\<close>

theorem resize_only_when_visible_witness:
  "visible (example_widget 1000 []) \<and>
   width (resize 800 (example_widget 1000 [])) = Num 800 \<and>
   redraws (resize 800 (example_widget 1000 [])) = 2 \<and>
   \<not> visible (hide (example_widget 1000 [])) \<and>
   resize 800 (hide (example_widget 1000 [])) = hide (example_widget 1000 [])"
proof -
  let ?e = "example_widget 1000 []"
  have v: "visible ?e" and h: "\<not> visible (hide ?e)"
    by (simp_all add: hide_def example_widget_fields)
  from resize_only_when_visible [of ?e 800] v
  have a: "width (resize 800 ?e) = Num (800 - margin_right (margin ?e) - margin_left (margin ?e))"
    and b: "redraws (resize 800 ?e) = redraws ?e + 1"
    by blast+
  from resize_only_when_visible [of "hide ?e" 800] h
  have c: "resize 800 (hide ?e) = hide ?e"
    by blast
  from a have a': "width (resize 800 ?e) = Num 800"
    by (simp add: example_widget_fields)
  from b have b': "redraws (resize 800 ?e) = 2"
    by (simp add: example_widget_fields)
  from v h a' b' c show ?thesis by blast
qed

section \<open>Removing a bar by index\<close>



end
